theory Spec2Isabelle
  imports Main
begin

section \<open>The weaverbird session: data model\<close>

text \<open>
  The embedding follows \<^verbatim>\<open>src/weaverbird/session/session.ts\<close>. A \<^verbatim>\<open>Session\<close> is a
  record of its private fields; the state objects it points to live in a heap, because the
  session and the states' own \<^verbatim>\<open>interact\<close> share and mutate them (the successor a state
  returns may be the very object that is current). Every method takes the session and the
  world and returns both, updated, with the value or the thrown error: a rejected promise
  keeps the assignments made before the throw. Methods are run one at a time, to completion.

  Collaborators that are imported by the file but are not part of it (the backend client, the
  file utilities, Node's \<^verbatim>\<open>path\<close>, the states' \<^verbatim>\<open>interact\<close>, the constants of
  \<^verbatim>\<open>limits\<close> and \<^verbatim>\<open>constants\<close>) are fields of an environment record: every
  theorem holds for all of them. A call to the outside is appended to the trace of the world
  before it is answered, and the answer may depend on the whole trace.
\<close>

type_synonym addr = nat
type_synonym ref = nat
type_synonym bytes = "char list"

datatype error =
    ConversationIdNotFoundError
  | Error string
  | Rejected string

datatype state_class = ConversationNotStartedState | RefinementState | CodeGenState

datatype client = WeaverbirdClient

datatype uri = Uri string string

datatype interaction = Interaction string

text \<open>\<^verbatim>\<open>SessionConfig\<close>, the fields the session reads.\<close>

record session_config =
  llmConfig :: ref
  workspaceRoot :: string
  backendConfig :: ref
  fs :: ref

text \<open>\<^verbatim>\<open>SessionStateConfig\<close>, as \<^verbatim>\<open>getSessionStateConfig\<close> builds it.\<close>

record session_state_config =
  ssc_llmConfig :: ref
  ssc_workspaceRoot :: string
  ssc_backendConfig :: ref
  ssc_proxyClient :: client
  ssc_conversationId :: string
  ssc_uploadId :: string

text \<open>
  A state object (\<^verbatim>\<open>SessionState\<close>): its class, what its constructor was given, and the
  members the session touches. \<^verbatim>\<open>phase\<close> and \<^verbatim>\<open>filePaths\<close> may be undefined;
  \<open>tokenSource_cancelled\<close> records that \<^verbatim>\<open>tokenSource.cancel()\<close> has been called.
\<close>

record session_state =
  cls :: state_class
  st_config :: "session_state_config option"
  st_approach :: string
  st_tabID :: string
  phase :: "string option"
  filePaths :: "string list option"
  tokenSource_cancelled :: bool

text \<open>The argument of \<^verbatim>\<open>interact\<close> and its result.\<close>

record action =
  act_files :: "(string \<times> string) list"
  act_task :: string
  act_msg :: "string option"
  act_fs :: ref
  act_messenger :: ref

record response =
  nextState :: "addr option"
  interaction :: interaction

datatype event =
    CreateConversation
  | GetSourceCodePath string string
  | PrepareRepoData string
  | CreateUploadUrl string string
  | UploadCode string bytes
  | CollectFiles string
  | Interact addr action
  | Cancel addr
  | Mkdir string
  | WriteFile string string

text \<open>
  The world outside the session object: the heap of state objects, the next free address,
  the calls made so far, and the content of the virtual file system behind
  \<^verbatim>\<open>config.fs\<close> (a read may be rejected).
\<close>

record world =
  heap :: "addr \<Rightarrow> session_state"
  next_addr :: addr
  trace :: "event list"
  vfs :: "uri \<Rightarrow> error + bytes"

record env =
  approachRetryLimit :: int
  codeGenRetryLimit :: int
  weaverbirdScheme :: string
  createConversation :: "event list \<Rightarrow> error + string"
  getSourceCodePath :: "event list \<Rightarrow> error + string"
  prepareRepoData :: "event list \<Rightarrow> error + bytes \<times> string"
  createUploadUrl :: "event list \<Rightarrow> error + string \<times> string"
  uploadCode :: "event list \<Rightarrow> error option"
  collectFiles :: "event list \<Rightarrow> error + (string \<times> string) list"
  interact :: "world \<Rightarrow> addr \<Rightarrow> action \<Rightarrow> world \<times> (error + response)"
  Uri_from :: "string \<Rightarrow> string \<Rightarrow> error + uri"
  TextDecoder_decode :: "bytes \<Rightarrow> string"
  isAbsolute :: "string \<Rightarrow> bool"
  join :: "string \<Rightarrow> string \<Rightarrow> string"
  dirname :: "string \<Rightarrow> string"
  mkdir :: "event list \<Rightarrow> error option"
  writeFile :: "event list \<Rightarrow> error option"

record session =
  config :: session_config
  messenger :: ref
  tabID :: string
  u_state :: "addr option"
  task :: string
  approach :: string
  proxyClient :: client
  u_conversationId :: "string option"
  u_uploadId :: "string option"
  approachRetries :: int
  codeGenRetries :: int

section \<open>State objects\<close>

text \<open>
  Modelled from the spec: the classes of \<^verbatim>\<open>sessionState.ts\<close> are not among the
  sources, so the phase each class declares is taken from the glossary: Approach for
  refinement, Codegen for code generation, and none for the state before the conversation
  has started.
\<close>

fun phase_of :: "state_class \<Rightarrow> string option" where
  "phase_of ConversationNotStartedState = None"
| "phase_of RefinementState = Some ''Approach''"
| "phase_of CodeGenState = Some ''Codegen''"

text \<open>
  Modelled from the spec: the constructors of the state classes are not among the sources.
  A new state object is of the class named after \<^verbatim>\<open>new\<close>, keeps the configuration, the
  approach and the tab given to its constructor, has no file paths yet, and has a token
  source that has not been cancelled.
\<close>

definition new_state ::
  "state_class \<Rightarrow> session_state_config option \<Rightarrow> string \<Rightarrow> string \<Rightarrow> session_state" where
  "new_state c cfg a t =
     \<lparr>cls = c, st_config = cfg, st_approach = a, st_tabID = t, phase = phase_of c,
      filePaths = None, tokenSource_cancelled = False\<rparr>"

text \<open>
  \<open>alloc\<close> is \<^verbatim>\<open>new\<close>, \<open>emit\<close> records a call to the outside, \<open>cancel\<close> is
  \<^verbatim>\<open>tokenSource.cancel()\<close> on the state at an address, and \<open>set_approach\<close> is the
  assignment to the \<^verbatim>\<open>approach\<close> member of the state at an address.
\<close>

definition alloc :: "session_state \<Rightarrow> world \<Rightarrow> addr \<times> world" where
  "alloc obj w =
     (next_addr w, w\<lparr>heap := (heap w)(next_addr w := obj), next_addr := Suc (next_addr w)\<rparr>)"

definition emit :: "event \<Rightarrow> world \<Rightarrow> world" where
  "emit e w = w\<lparr>trace := trace w @ [e]\<rparr>"

definition cancel :: "addr \<Rightarrow> world \<Rightarrow> world" where
  "cancel a w =
     emit (Cancel a) (w\<lparr>heap := (heap w)(a := (heap w a)\<lparr>tokenSource_cancelled := True\<rparr>)\<rparr>)"

definition set_approach :: "addr \<Rightarrow> string \<Rightarrow> world \<Rightarrow> world" where
  "set_approach a v w = w\<lparr>heap := (heap w)(a := (heap w a)\<lparr>st_approach := v\<rparr>)\<rparr>"

section \<open>The session\<close>

text \<open>The constructor (lines 33 to 39).\<close>

definition Session :: "env \<Rightarrow> session_config \<Rightarrow> ref \<Rightarrow> string \<Rightarrow> world \<Rightarrow> session \<times> world" where
  "Session env cfg m t w =
     (let (a, w1) = alloc (new_state ConversationNotStartedState None '''' t) w
      in (\<lparr>config = cfg, messenger = m, tabID = t, u_state = Some a, task = '''',
           approach = '''', proxyClient = WeaverbirdClient, u_conversationId = None,
           u_uploadId = None, approachRetries = approachRetryLimit env,
           codeGenRetries = codeGenRetryLimit env\<rparr>, w1))"

text \<open>
  The getters (lines 142 to 147 and 170 to 182). \<^verbatim>\<open>!x\<close> holds of \<^verbatim>\<open>undefined\<close> and, for a
  string, of the empty string; an object is never falsy.
\<close>

definition state :: "session \<Rightarrow> error + addr" where
  "state s =
     (case u_state s of
        None \<Rightarrow> Inl (Error ''State should be initialized before it's read'')
      | Some a \<Rightarrow> Inr a)"

definition conversationId :: "session \<Rightarrow> error + string" where
  "conversationId s =
     (case u_conversationId s of
        None \<Rightarrow> Inl ConversationIdNotFoundError
      | Some c \<Rightarrow> if c = '''' then Inl ConversationIdNotFoundError else Inr c)"

definition uploadId :: "session \<Rightarrow> error + string" where
  "uploadId s =
     (case u_uploadId s of
        None \<Rightarrow> Inl (Error ''UploadId should be initialized before it's read'')
      | Some u \<Rightarrow>
          if u = '''' then Inl (Error ''UploadId should be initialized before it's read'')
          else Inr u)"

text \<open>
  \<^verbatim>\<open>retries\<close> and \<^verbatim>\<open>decreaseRetries\<close> (lines 149 to 169). The counters are JavaScript
  numbers holding small integers; they are integers here.
\<close>

definition retries :: "session \<Rightarrow> world \<Rightarrow> error + int" where
  "retries s w =
     (case state s of
        Inl e \<Rightarrow> Inl e
      | Inr a \<Rightarrow>
          if phase (heap w a) = Some ''Approach'' then Inr (approachRetries s)
          else if phase (heap w a) = Some ''Codegen'' then Inr (codeGenRetries s)
          else Inr (approachRetries s))"

definition decreaseRetries :: "session \<Rightarrow> world \<Rightarrow> session \<times> (error + unit)" where
  "decreaseRetries s w =
     (case state s of
        Inl e \<Rightarrow> (s, Inl e)
      | Inr a \<Rightarrow>
          if phase (heap w a) = Some ''Approach''
          then (s\<lparr>approachRetries := approachRetries s - 1\<rparr>, Inr ())
          else if phase (heap w a) = Some ''Codegen''
          then (s\<lparr>codeGenRetries := codeGenRetries s - 1\<rparr>, Inr ())
          else (s, Inr ()))"

text \<open>
  \<^verbatim>\<open>getSessionStateConfig\<close> (lines 66 to 75): the object literal reads the two getters in
  order, conversation id first, and either may throw.
\<close>

definition getSessionStateConfig :: "session \<Rightarrow> error + session_state_config" where
  "getSessionStateConfig s =
     (case conversationId s of
        Inl e \<Rightarrow> Inl e
      | Inr c \<Rightarrow>
          (case uploadId s of
             Inl e \<Rightarrow> Inl e
           | Inr u \<Rightarrow>
               Inr \<lparr>ssc_llmConfig = llmConfig (config s),
                    ssc_workspaceRoot = workspaceRoot (config s),
                    ssc_backendConfig = backendConfig (config s),
                    ssc_proxyClient = proxyClient s,
                    ssc_conversationId = c,
                    ssc_uploadId = u\<rparr>))"

text \<open>\<^verbatim>\<open>setupConversation\<close> (lines 46 to 64).\<close>

definition setupConversation :: "env \<Rightarrow> session \<Rightarrow> world \<Rightarrow> session \<times> world \<times> (error + unit)" where
  "setupConversation env s w =
     (let w1 = emit CreateConversation w in
      case createConversation env (trace w1) of
        Inl e \<Rightarrow> (s, w1, Inl e)
      | Inr cid \<Rightarrow>
          let s1 = s\<lparr>u_conversationId := Some cid\<rparr>;
              w2 = emit (GetSourceCodePath (workspaceRoot (config s1)) ''src'') w1
          in
          (case getSourceCodePath env (trace w2) of
             Inl e \<Rightarrow> (s1, w2, Inl e)
           | Inr repoRootPath \<Rightarrow>
               let w3 = emit (PrepareRepoData repoRootPath) w2 in
               (case prepareRepoData env (trace w3) of
                  Inl e \<Rightarrow> (s1, w3, Inl e)
                | Inr (zipFileBuffer, zipFileChecksum) \<Rightarrow>
                    let w4 = emit (CreateUploadUrl cid zipFileChecksum) w3 in
                    (case createUploadUrl env (trace w4) of
                       Inl e \<Rightarrow> (s1, w4, Inl e)
                     | Inr (uploadUrl, uid) \<Rightarrow>
                         let s2 = s1\<lparr>u_uploadId := Some uid\<rparr>;
                             w5 = emit (UploadCode uploadUrl zipFileBuffer) w4
                         in
                         (case uploadCode env (trace w5) of
                            Some e \<Rightarrow> (s2, w5, Inl e)
                          | None \<Rightarrow>
                              (case getSessionStateConfig s2 of
                                 Inl e \<Rightarrow> (s2, w5, Inl e)
                               | Inr cfg \<Rightarrow>
                                   (case conversationId s2 of
                                      Inl e \<Rightarrow> (s2, w5, Inl e)
                                    | Inr c \<Rightarrow>
                                        let (a, w6) =
                                              alloc (new_state RefinementState
                                                       (Some (cfg\<lparr>ssc_conversationId := c\<rparr>))
                                                       '''' (tabID s2)) w5
                                        in (s2\<lparr>u_state := Some a\<rparr>, w6, Inr ()))))))))"

text \<open>\<^verbatim>\<open>initCodegen\<close> (lines 80 to 89).\<close>

definition initCodegen :: "session \<Rightarrow> world \<Rightarrow> session \<times> world \<times> (error + unit)" where
  "initCodegen s w =
     (case getSessionStateConfig s of
        Inl e \<Rightarrow> (s, w, Inl e)
      | Inr cfg \<Rightarrow>
          (case conversationId s of
             Inl e \<Rightarrow> (s, w, Inl e)
           | Inr c \<Rightarrow>
               let (a, w1) =
                     alloc (new_state CodeGenState (Some (cfg\<lparr>ssc_conversationId := c\<rparr>))
                              (approach s) (tabID s)) w
               in (s\<lparr>u_state := Some a\<rparr>, w1, Inr ())))"

text \<open>\<^verbatim>\<open>nextInteraction\<close> (lines 100 to 127) and \<^verbatim>\<open>send\<close> (lines 91 to 98).\<close>

definition nextInteraction ::
  "env \<Rightarrow> session \<Rightarrow> world \<Rightarrow> string option \<Rightarrow> session \<times> world \<times> (error + interaction)" where
  "nextInteraction env s w msg =
     (let w0 = emit (CollectFiles (workspaceRoot (config s))) w in
      case collectFiles env (trace w0) of
        Inl e \<Rightarrow> (s, w0, Inl e)
      | Inr files \<Rightarrow>
          (case state s of
             Inl e \<Rightarrow> (s, w0, Inl e)
           | Inr cur \<Rightarrow>
               let act = \<lparr>act_files = files, act_task = task s, act_msg = msg,
                          act_fs = fs (config s), act_messenger = messenger s\<rparr>;
                   w1 = emit (Interact cur act) w0
               in
               (case interact env w1 cur act of
                  (w2, Inl e) \<Rightarrow> (s, w2, Inl e)
                | (w2, Inr resp) \<Rightarrow>
                    (case nextState resp of
                       None \<Rightarrow> (s, w2, Inr (interaction resp))
                     | Some nxt \<Rightarrow>
                         let newApproach = st_approach (heap w2 cur);
                             w3 = cancel cur w2;
                             s1 = s\<lparr>u_state := Some nxt\<rparr>;
                             w4 = set_approach nxt newApproach w3;
                             s2 = s1\<lparr>approach := newApproach\<rparr>
                         in (s2, w4, Inr (interaction resp))))))"

definition send ::
  "env \<Rightarrow> session \<Rightarrow> world \<Rightarrow> string \<Rightarrow> session \<times> world \<times> (error + interaction)" where
  "send env s w msg =
     (let s1 = (if task s = '''' then s\<lparr>task := msg\<rparr> else s)
      in nextInteraction env s1 w (Some msg))"

text \<open>
  \<^verbatim>\<open>acceptChanges\<close> (lines 129 to 140): \<open>writeChanges\<close> is the loop over the paths, which
  stops at the first rejected call.
\<close>

fun writeChanges :: "env \<Rightarrow> session \<Rightarrow> string list \<Rightarrow> world \<Rightarrow> world \<times> (error + unit)" where
  "writeChanges env s [] w = (w, Inr ())"
| "writeChanges env s (filePath # rest) w =
     (let absolutePath =
            (if isAbsolute env filePath then filePath
             else join env (workspaceRoot (config s)) filePath)
      in
      case Uri_from env (weaverbirdScheme env) filePath of
        Inl e \<Rightarrow> (w, Inl e)
      | Inr u \<Rightarrow>
          (case vfs w u of
             Inl e \<Rightarrow> (w, Inl e)
           | Inr content \<Rightarrow>
               let decodedContent = TextDecoder_decode env content;
                   w1 = emit (Mkdir (dirname env absolutePath)) w
               in
               (case mkdir env (trace w1) of
                  Some e \<Rightarrow> (w1, Inl e)
                | None \<Rightarrow>
                    let w2 = emit (WriteFile absolutePath decodedContent) w1 in
                    (case writeFile env (trace w2) of
                       Some e \<Rightarrow> (w2, Inl e)
                     | None \<Rightarrow> writeChanges env s rest w2))))"

definition acceptChanges :: "env \<Rightarrow> session \<Rightarrow> world \<Rightarrow> world \<times> (error + unit)" where
  "acceptChanges env s w =
     (case state s of
        Inl e \<Rightarrow> (w, Inl e)
      | Inr a \<Rightarrow>
          writeChanges env s (case filePaths (heap w a) of None \<Rightarrow> [] | Some ps \<Rightarrow> ps) w)"

section \<open>Sequences of calls\<close>

text \<open>
  A caller holds the session and calls its methods one after the other; a call that throws
  leaves the session as it was at the throw, and the caller may go on.
\<close>

datatype operation = SetupConversation | InitCodegen | Send string | AcceptChanges | DecreaseRetries

fun step :: "env \<Rightarrow> session \<times> world \<Rightarrow> operation \<Rightarrow> session \<times> world" where
  "step env (s, w) SetupConversation = (case setupConversation env s w of (s', w', r) \<Rightarrow> (s', w'))"
| "step env (s, w) InitCodegen = (case initCodegen s w of (s', w', r) \<Rightarrow> (s', w'))"
| "step env (s, w) (Send msg) = (case send env s w msg of (s', w', r) \<Rightarrow> (s', w'))"
| "step env (s, w) AcceptChanges = (case acceptChanges env s w of (w', r) \<Rightarrow> (s, w'))"
| "step env (s, w) DecreaseRetries = (case decreaseRetries s w of (s', r) \<Rightarrow> (s', w))"

definition run :: "env \<Rightarrow> session \<times> world \<Rightarrow> operation list \<Rightarrow> session \<times> world" where
  "run env sw ops = foldl (step env) sw ops"

text \<open>The messages passed to \<^verbatim>\<open>send\<close> in a sequence of calls, in order.\<close>

fun sent :: "operation list \<Rightarrow> string list" where
  "sent [] = []"
| "sent (Send msg # ops) = msg # sent ops"
| "sent (_ # ops) = sent ops"

section \<open>A concrete environment\<close>

text \<open>
  A backend that answers every call, POSIX paths, and a caller that creates a session, sets
  the conversation up and starts code generation. The examples below are evaluated on it.
\<close>

definition posix_isAbsolute :: "string \<Rightarrow> bool" where
  "posix_isAbsolute p = (case p of [] \<Rightarrow> False | c # cs \<Rightarrow> c = CHR ''/'')"

definition posix_dirname :: "string \<Rightarrow> string" where
  "posix_dirname p = rev (tl (dropWhile (\<lambda>c. c \<noteq> CHR ''/'') (rev p)))"

definition env0 :: env where
  "env0 =
     \<lparr>approachRetryLimit = 3, codeGenRetryLimit = 3, weaverbirdScheme = ''aws-weaverbird'',
      createConversation = (\<lambda>tr. Inr ''conv-1''),
      getSourceCodePath = (\<lambda>tr. Inr ''/ws/src''),
      prepareRepoData = (\<lambda>tr. Inr (''PK'', ''c0ffee'')),
      createUploadUrl = (\<lambda>tr. Inr (''https://upload'', ''up-1'')),
      uploadCode = (\<lambda>tr. None),
      collectFiles = (\<lambda>tr. Inr []),
      interact = (\<lambda>w a act. (w, Inr \<lparr>nextState = None, interaction = Interaction ''ok''\<rparr>)),
      Uri_from = (\<lambda>sch p. Inr (Uri sch p)),
      TextDecoder_decode = (\<lambda>b. b),
      isAbsolute = posix_isAbsolute,
      join = (\<lambda>a b. a @ ''/'' @ b),
      dirname = posix_dirname,
      mkdir = (\<lambda>tr. None),
      writeFile = (\<lambda>tr. None)\<rparr>"

definition cfg0 :: session_config where
  "cfg0 = \<lparr>llmConfig = 1, workspaceRoot = ''/ws'', backendConfig = 2, fs = 3\<rparr>"

definition w0 :: world where
  "w0 = \<lparr>heap = (\<lambda>a. new_state ConversationNotStartedState None '''' ''''), next_addr = 0,
         trace = [], vfs = (\<lambda>u. Inl (Rejected ''ENOENT''))\<rparr>"

definition sw_new :: "session \<times> world" where
  "sw_new = Session env0 cfg0 4 ''tab-1'' w0"

definition sw_refinement :: "session \<times> world" where
  "sw_refinement = run env0 sw_new [SetupConversation]"

definition sw_codegen :: "session \<times> world" where
  "sw_codegen = run env0 sw_new [SetupConversation, InitCodegen]"


text \<open>A backend whose \<^verbatim>\<open>createConversation\<close> answers with an empty identifier.\<close>

definition env_empty_id :: env where
  "env_empty_id = env0\<lparr>createConversation := (\<lambda>tr. Inr '''')\<rparr>"

definition sw_empty_id :: "session \<times> world" where
  "sw_empty_id = run env_empty_id sw_new [SetupConversation]"

text \<open>A state whose \<^verbatim>\<open>interact\<close> edits its approach and answers with a new successor.\<close>

definition env_successor :: env where
  "env_successor =
     env0\<lparr>interact := (\<lambda>w a act.
       let w1 = set_approach a ''edited plan'' w;
           (n, w2) = alloc (new_state RefinementState None '''' ''tab-1'') w1
       in (w2, Inr \<lparr>nextState = Some n, interaction = Interaction ''next''\<rparr>))\<rparr>"

text \<open>The world after code generation has produced two files, one relative and one absolute.\<close>

definition w_generated :: world where
  "w_generated =
     (snd sw_codegen)
       \<lparr>heap := (heap (snd sw_codegen))
          (2 := (heap (snd sw_codegen) 2)\<lparr>filePaths := Some [''src/a.ts'', ''/abs/b.ts'']\<rparr>),
        vfs := (\<lambda>u.
          if u = Uri ''aws-weaverbird'' ''src/a.ts'' then Inr ''let a = 1''
          else if u = Uri ''aws-weaverbird'' ''/abs/b.ts'' then Inr ''let b = 2''
          else Inl (Rejected ''ENOENT''))\<rparr>"

text \<open>A backend that rejects the upload, and a caller that sets the conversation up twice.\<close>

definition env_upload_fails :: env where
  "env_upload_fails = env0\<lparr>uploadCode := (\<lambda>tr. Some (Rejected ''upload failed''))\<rparr>"

definition sw_upload_failed :: "session \<times> world" where
  "sw_upload_failed = run env_upload_fails sw_new [SetupConversation]"

definition sw_codegen_direct :: "session \<times> world" where
  "sw_codegen_direct = run env_upload_fails sw_new [SetupConversation, InitCodegen]"

definition sw_back :: "session \<times> world" where
  "sw_back = run env0 sw_new [SetupConversation, InitCodegen, SetupConversation]"

section \<open>The examples, evaluated\<close>

lemmas example_defs = Session_def alloc_def new_state_def emit_def env0_def cfg0_def w0_def
  setupConversation_def initCodegen_def getSessionStateConfig_def conversationId_def uploadId_def
  run_def

lemma sw_new_simps:
  "u_state (fst sw_new) = Some 0" "phase (heap (snd sw_new) 0) = None"
  "approachRetries (fst sw_new) = 3" "codeGenRetries (fst sw_new) = 3"
  by (simp_all add: sw_new_def example_defs)

lemma sw_refinement_simps:
  "u_state (fst sw_refinement) = Some (Suc 0)" "phase (heap (snd sw_refinement) (Suc 0)) = Some ''Approach''"
  "approachRetries (fst sw_refinement) = 3" "codeGenRetries (fst sw_refinement) = 3"
  by (simp_all add: sw_refinement_def sw_new_def example_defs)

lemma sw_codegen_simps:
  "u_state (fst sw_codegen) = Some 2" "phase (heap (snd sw_codegen) 2) = Some ''Codegen''"
  "approachRetries (fst sw_codegen) = 3" "codeGenRetries (fst sw_codegen) = 3"
  by (simp_all add: sw_codegen_def sw_new_def example_defs)

lemma sw_empty_id_simps:
  "u_conversationId (fst sw_empty_id) = Some ''''"
  "u_uploadId (fst sw_empty_id) = Some ''up-1''"
  by (simp_all add: sw_empty_id_def env_empty_id_def sw_new_def example_defs)

lemma sw_refinement_ids:
  "u_conversationId (fst sw_refinement) = Some ''conv-1''"
  "u_uploadId (fst sw_refinement) = Some ''up-1''"
  by (simp_all add: sw_refinement_def sw_new_def example_defs)

lemma sw_refinement_more:
  "task (fst sw_refinement) = ''''" "config (fst sw_refinement) = cfg0"
  "messenger (fst sw_refinement) = 4" "approach (fst sw_refinement) = ''''"
  "next_addr (snd sw_refinement) = 2"
  "tokenSource_cancelled (heap (snd sw_refinement) (Suc 0)) = False"
  by (simp_all add: sw_refinement_def sw_new_def example_defs)

lemma sw_codegen_more:
  "config (fst sw_codegen) = cfg0" "trace (snd sw_codegen) =
     [CreateConversation, GetSourceCodePath ''/ws'' ''src'', PrepareRepoData ''/ws/src'',
      CreateUploadUrl ''conv-1'' ''c0ffee'', UploadCode ''https://upload'' ''PK'']"
  by (simp_all add: sw_codegen_def sw_new_def example_defs)

lemma sw_new_more:
  "next_addr (snd sw_new) = 1" "cls (heap (snd sw_new) 0) = ConversationNotStartedState"
  by (simp_all add: sw_new_def example_defs)

lemma setup_examples:
  "snd (snd (setupConversation env0 (fst sw_new) (snd sw_new))) = Inr ()"
  "snd (snd (setupConversation env_upload_fails (fst sw_new) (snd sw_new))) =
     Inl (Rejected ''upload failed'')"
  "snd (snd (initCodegen (fst sw_refinement) (snd sw_refinement))) = Inr ()"
  by (simp_all add: sw_refinement_def env_upload_fails_def sw_new_def example_defs)

section \<open>What each method leaves unchanged\<close>

lemma Session_fields:
  "task (fst (Session env cfg m t w)) = ''''"
  "u_state (fst (Session env cfg m t w)) = Some (next_addr w)"
  "u_conversationId (fst (Session env cfg m t w)) = None"
  "u_uploadId (fst (Session env cfg m t w)) = None"
  "cls (heap (snd (Session env cfg m t w)) (next_addr w)) = ConversationNotStartedState"
  by (simp_all add: Session_def alloc_def new_state_def)

lemma nextInteraction_fields:
  "nextInteraction env s w msg = (s', w', r) \<Longrightarrow>
     task s' = task s \<and> u_conversationId s' = u_conversationId s \<and> u_uploadId s' = u_uploadId s \<and>
     approachRetries s' = approachRetries s \<and> codeGenRetries s' = codeGenRetries s \<and>
     (u_state s \<noteq> None \<longrightarrow> u_state s' \<noteq> None)"
  by (auto simp: nextInteraction_def Let_def state_def split: sum.splits option.splits prod.splits)

lemma send_fields:
  "send env s w msg = (s', w', r) \<Longrightarrow>
     task s' = (if task s = '''' then msg else task s) \<and>
     u_conversationId s' = u_conversationId s \<and> u_uploadId s' = u_uploadId s \<and>
     (u_state s \<noteq> None \<longrightarrow> u_state s' \<noteq> None)"
  by (auto simp: send_def Let_def dest!: nextInteraction_fields split: if_splits)

lemma setupConversation_fields:
  "setupConversation env s w = (s', w', r) \<Longrightarrow>
     task s' = task s \<and> (u_state s \<noteq> None \<longrightarrow> u_state s' \<noteq> None)"
  by (auto simp: setupConversation_def Let_def alloc_def split: sum.splits option.splits prod.splits)

lemma initCodegen_fields:
  "initCodegen s w = (s', w', r) \<Longrightarrow>
     task s' = task s \<and> u_conversationId s' = u_conversationId s \<and> u_uploadId s' = u_uploadId s \<and>
     (u_state s \<noteq> None \<longrightarrow> u_state s' \<noteq> None)"
  by (auto simp: initCodegen_def Let_def alloc_def split: sum.splits option.splits prod.splits)

lemma decreaseRetries_fields:
  "decreaseRetries s w = (s', r) \<Longrightarrow>
     task s' = task s \<and> u_conversationId s' = u_conversationId s \<and> u_uploadId s' = u_uploadId s \<and>
     u_state s' = u_state s"
  by (auto simp: decreaseRetries_def split: sum.splits if_splits)

lemma step_task:
  "task (fst (step env (s, w) op)) =
     (case op of Send msg \<Rightarrow> if task s = '''' then msg else task s | _ \<Rightarrow> task s)"
  by (cases op)
    (auto split: prod.splits dest: send_fields setupConversation_fields initCodegen_fields
       decreaseRetries_fields)

lemma step_state: "u_state (fst sw) \<noteq> None \<Longrightarrow> u_state (fst (step env sw op)) \<noteq> None"
  by (cases sw; cases op)
    (auto split: prod.splits dest: send_fields setupConversation_fields initCodegen_fields
       decreaseRetries_fields)

lemma run_Cons: "run env sw (op # ops) = run env (step env sw op) ops"
  by (simp add: run_def)

lemma run_Nil: "run env sw [] = sw"
  by (simp add: run_def)

lemma run_task:
  "task (fst (run env (s, w) ops)) =
     (if task s \<noteq> '''' then task s
      else case find (\<lambda>m. m \<noteq> '''') (sent ops) of None \<Rightarrow> '''' | Some x \<Rightarrow> x)"
proof (induction ops arbitrary: s w)
  case Nil
  show ?case by (simp add: run_Nil)
next
  case (Cons op ops)
  obtain s' w' where st: "step env (s, w) op = (s', w')" by (cases "step env (s, w) op")
  have t: "task s' = (case op of Send msg \<Rightarrow> if task s = '''' then msg else task s | _ \<Rightarrow> task s)"
    using step_task [of env s w op] st by simp
  show ?case
    unfolding run_Cons st Cons.IH t
    by (cases op) auto
qed

lemma run_state: "u_state (fst sw) \<noteq> None \<Longrightarrow> u_state (fst (run env sw ops)) \<noteq> None"
proof (induction ops arbitrary: sw)
  case Nil
  then show ?case by (simp add: run_Nil)
next
  case (Cons op ops)
  from Cons.prems have "u_state (fst (step env sw op)) \<noteq> None"
    by (rule step_state)
  then show ?case
    unfolding run_Cons by (rule Cons.IH)
qed

section \<open>The retry counters\<close>

text \<open>
  C4. \<^verbatim>\<open>decreaseRetries\<close> decrements the counter that the phase of the current state
  selects and leaves the other one, and every other field of the session, as it was: with
  phase Approach only \<open>approachRetries\<close> goes down by one, with phase Codegen only
  \<open>codeGenRetries\<close>, and with any other phase neither changes.
\<close>

theorem decreaseRetries_selected_counter:
  assumes "u_state s = Some a" and "decreaseRetries s w = (s', r)"
  shows "r = Inr () \<and>
    s' = s\<lparr>approachRetries := approachRetries s', codeGenRetries := codeGenRetries s'\<rparr> \<and>
    (phase (heap w a) = Some ''Approach'' \<longrightarrow>
       approachRetries s' = approachRetries s - 1 \<and> codeGenRetries s' = codeGenRetries s) \<and>
    (phase (heap w a) = Some ''Codegen'' \<longrightarrow>
       codeGenRetries s' = codeGenRetries s - 1 \<and> approachRetries s' = approachRetries s) \<and>
    (phase (heap w a) \<noteq> Some ''Approach'' \<and> phase (heap w a) \<noteq> Some ''Codegen'' \<longrightarrow>
       approachRetries s' = approachRetries s \<and> codeGenRetries s' = codeGenRetries s)"
  using assms by (auto simp: decreaseRetries_def state_def split: if_splits)

theorem decreaseRetries_selected_counter_witness:
  "(let s' = fst (decreaseRetries (fst sw_refinement) (snd sw_refinement))
    in approachRetries s' = 2 \<and> codeGenRetries s' = 3) \<and>
   (let s' = fst (decreaseRetries (fst sw_codegen) (snd sw_codegen))
    in approachRetries s' = 3 \<and> codeGenRetries s' = 2) \<and>
   (let s' = fst (decreaseRetries (fst sw_new) (snd sw_new))
    in approachRetries s' = 3 \<and> codeGenRetries s' = 3)"
  using decreaseRetries_selected_counter
      [of "fst sw_refinement" 1 "snd sw_refinement"
          "fst (decreaseRetries (fst sw_refinement) (snd sw_refinement))"
          "snd (decreaseRetries (fst sw_refinement) (snd sw_refinement))"]
    decreaseRetries_selected_counter
      [of "fst sw_codegen" 2 "snd sw_codegen"
          "fst (decreaseRetries (fst sw_codegen) (snd sw_codegen))"
          "snd (decreaseRetries (fst sw_codegen) (snd sw_codegen))"]
    decreaseRetries_selected_counter
      [of "fst sw_new" 0 "snd sw_new"
          "fst (decreaseRetries (fst sw_new) (snd sw_new))"
          "snd (decreaseRetries (fst sw_new) (snd sw_new))"]
  by (simp add: sw_refinement_simps sw_codegen_simps sw_new_simps Let_def)

text \<open>
  C10. The \<^verbatim>\<open>retries\<close> getter answers in every phase: \<open>approachRetries\<close> for
  Approach, \<open>codeGenRetries\<close> for Codegen, and \<open>approachRetries\<close> again for any other
  phase, where \<^verbatim>\<open>decreaseRetries\<close> changes nothing.
\<close>

theorem retries_total_over_phases:
  assumes "u_state s = Some a"
  shows "(\<exists>n. retries s w = Inr n) \<and>
    (phase (heap w a) = Some ''Approach'' \<longrightarrow> retries s w = Inr (approachRetries s)) \<and>
    (phase (heap w a) = Some ''Codegen'' \<longrightarrow> retries s w = Inr (codeGenRetries s)) \<and>
    (phase (heap w a) \<noteq> Some ''Approach'' \<and> phase (heap w a) \<noteq> Some ''Codegen'' \<longrightarrow>
       retries s w = Inr (approachRetries s) \<and> decreaseRetries s w = (s, Inr ()))"
  using assms by (simp add: retries_def decreaseRetries_def state_def)

theorem retries_total_over_phases_witness:
  "retries (fst sw_refinement) (snd sw_refinement) = Inr 3 \<and>
   retries (fst sw_codegen) (snd sw_codegen) = Inr 3 \<and>
   retries (fst sw_new) (snd sw_new) = Inr 3 \<and>
   decreaseRetries (fst sw_new) (snd sw_new) = (fst sw_new, Inr ())"
  using retries_total_over_phases [of "fst sw_refinement" 1 "snd sw_refinement"]
    retries_total_over_phases [of "fst sw_codegen" 2 "snd sw_codegen"]
    retries_total_over_phases [of "fst sw_new" 0 "snd sw_new"]
  by (simp add: sw_refinement_simps sw_codegen_simps sw_new_simps)

section \<open>The getters\<close>

text \<open>
  C7, as amended. Reading \<^verbatim>\<open>conversationId\<close> throws, and then it throws
  \<^verbatim>\<open>ConversationIdNotFoundError\<close>, exactly when the stored identifier is undefined or
  the empty string; reading \<^verbatim>\<open>uploadId\<close> throws exactly when the stored upload
  identifier is undefined or the empty string; otherwise each getter returns what is stored.
\<close>

theorem id_getters_throw_iff_falsy:
  "((\<exists>e. conversationId s = Inl e) \<longleftrightarrow> u_conversationId s = None \<or> u_conversationId s = Some '''') \<and>
   (\<forall>e. conversationId s = Inl e \<longrightarrow> e = ConversationIdNotFoundError) \<and>
   (\<forall>c. u_conversationId s = Some c \<and> c \<noteq> '''' \<longrightarrow> conversationId s = Inr c) \<and>
   ((\<exists>e. uploadId s = Inl e) \<longleftrightarrow> u_uploadId s = None \<or> u_uploadId s = Some '''') \<and>
   (\<forall>u. u_uploadId s = Some u \<and> u \<noteq> '''' \<longrightarrow> uploadId s = Inr u)"
  by (auto simp: conversationId_def uploadId_def split: option.splits)

theorem id_getters_throw_iff_falsy_witness:
  "conversationId (fst sw_refinement) = Inr ''conv-1'' \<and> uploadId (fst sw_refinement) = Inr ''up-1'' \<and>
   conversationId (fst sw_new) = Inl ConversationIdNotFoundError \<and>
   conversationId (fst sw_empty_id) = Inl ConversationIdNotFoundError"
  using id_getters_throw_iff_falsy [of "fst sw_refinement"]
    id_getters_throw_iff_falsy [of "fst sw_new"]
    id_getters_throw_iff_falsy [of "fst sw_empty_id"]
  by (auto simp: sw_refinement_ids sw_empty_id_simps sw_new_def Session_fields)

text \<open>
  C7 as stated fails: after a \<^verbatim>\<open>setupConversation\<close> whose \<^verbatim>\<open>createConversation\<close>
  call has completed with an empty identifier, an identifier is stored and the getter throws.
\<close>

theorem stored_empty_id_counterexample:
  "u_conversationId (fst sw_empty_id) \<noteq> None \<and>
   conversationId (fst sw_empty_id) = Inl ConversationIdNotFoundError"
  by (simp add: sw_empty_id_simps conversationId_def)

text \<open>
  C9. The constructor stores a state, and no method ever stores an undefined one: after any
  sequence of calls on a new session the \<^verbatim>\<open>state\<close> getter returns.
\<close>

theorem state_getter_never_throws:
  "\<exists>a. state (fst (run env (Session env cfg m t w) ops)) = Inr a"
  using run_state [of "Session env cfg m t w" env ops]
  by (auto simp: state_def Session_fields split: option.splits)

section \<open>The task\<close>

text \<open>
  C8. \<^verbatim>\<open>send\<close> stores the message as the task only when the task is the empty string.
  So after any sequence of calls on a new session the task is the first non-empty message
  that was sent, whatever came later, and it is still empty when every message was empty.
\<close>

theorem send_sets_task_once:
  "task (fst (send env s w msg)) = (if task s = '''' then msg else task s) \<and>
   task (fst (run env (Session env cfg m t w) ops)) =
     (case find (\<lambda>x. x \<noteq> '''') (sent ops) of None \<Rightarrow> '''' | Some x \<Rightarrow> x)"
proof
  show "task (fst (send env s w msg)) = (if task s = '''' then msg else task s)"
    using send_fields [of env s w msg] by (cases "send env s w msg") simp
  show "task (fst (run env (Session env cfg m t w) ops)) =
     (case find (\<lambda>x. x \<noteq> '''') (sent ops) of None \<Rightarrow> '''' | Some x \<Rightarrow> x)"
    using run_task [of env "fst (Session env cfg m t w)" "snd (Session env cfg m t w)" ops]
    by (simp add: Session_fields)
qed

theorem send_sets_task_once_witness:
  "task (fst (run env0 sw_new [Send ''add a test'', SetupConversation, Send ''more''])) = ''add a test'' \<and>
   task (fst (run env0 sw_new [Send '''', Send ''second'', Send ''third''])) = ''second''"
  using send_sets_task_once [of env0 "fst sw_new" w0 "''x''" cfg0 4 "''tab-1''"
      "[Send ''add a test'', SetupConversation, Send ''more'']"]
    send_sets_task_once [of env0 "fst sw_new" w0 "''x''" cfg0 4 "''tab-1''"
      "[Send '''', Send ''second'', Send ''third'']"]
  by (simp add: sw_new_def)

section \<open>Sending a message\<close>

text \<open>
  C1. When the current state's \<^verbatim>\<open>interact\<close> answers with a successor, \<^verbatim>\<open>send\<close>
  reads the approach of the outgoing state as the interaction left it, cancels the outgoing
  state's token source, makes the successor the current state, and then stores that approach
  in the successor and in the session; it returns the interaction of the response. The world
  it leaves is the one \<^verbatim>\<open>interact\<close> left, cancelled first and with the approach set
  second.
\<close>

theorem send_installs_successor:
  assumes "u_state s = Some cur"
    and "collectFiles env (trace (emit (CollectFiles (workspaceRoot (config s))) w)) = Inr files"
    and "act = \<lparr>act_files = files, act_task = (if task s = '''' then msg else task s),
                act_msg = Some msg, act_fs = fs (config s), act_messenger = messenger s\<rparr>"
    and "interact env (emit (Interact cur act) (emit (CollectFiles (workspaceRoot (config s))) w))
           cur act = (w2, Inr resp)"
    and "nextState resp = Some nxt"
    and "send env s w msg = (s', w', r)"
  shows "r = Inr (interaction resp) \<and>
         w' = set_approach nxt (st_approach (heap w2 cur)) (cancel cur w2) \<and>
         s' = s\<lparr>task := (if task s = '''' then msg else task s), u_state := Some nxt,
                 approach := st_approach (heap w2 cur)\<rparr> \<and>
         u_state s' = Some nxt \<and>
         approach s' = st_approach (heap w2 cur) \<and>
         st_approach (heap w' nxt) = st_approach (heap w2 cur) \<and>
         tokenSource_cancelled (heap w' cur) \<and>
         trace w' = trace w2 @ [Cancel cur]"
  using assms
  by (auto simp: send_def nextInteraction_def state_def Let_def set_approach_def cancel_def emit_def)

theorem send_installs_successor_witness:
  "snd (snd (send env_successor (fst sw_refinement) (snd sw_refinement) ''use a queue'')) =
     Inr (Interaction ''next'') \<and>
   u_state (fst (send env_successor (fst sw_refinement) (snd sw_refinement) ''use a queue'')) =
     Some 2 \<and>
   approach (fst (send env_successor (fst sw_refinement) (snd sw_refinement) ''use a queue'')) =
     ''edited plan'' \<and>
   st_approach (heap (fst (snd (send env_successor (fst sw_refinement) (snd sw_refinement)
     ''use a queue''))) 2) = ''edited plan'' \<and>
   tokenSource_cancelled (heap (fst (snd (send env_successor (fst sw_refinement)
     (snd sw_refinement) ''use a queue''))) 1)"
proof -
  let ?s = "fst sw_refinement" and ?w = "snd sw_refinement"
  let ?act = "\<lparr>act_files = [], act_task = ''use a queue'', act_msg = Some ''use a queue'',
               act_fs = 3, act_messenger = 4\<rparr>"
  let ?w1 = "emit (Interact 1 ?act) (emit (CollectFiles (workspaceRoot (config ?s))) ?w)"
  let ?w2 = "fst (interact env_successor ?w1 1 ?act)"
  let ?resp = "\<lparr>nextState = Some 2, interaction = Interaction ''next''\<rparr>"
  let ?out = "send env_successor ?s ?w ''use a queue''"
  have h1: "u_state ?s = Some 1"
    by (simp add: sw_refinement_simps)
  have h2: "collectFiles env_successor (trace (emit (CollectFiles (workspaceRoot (config ?s))) ?w))
              = Inr []"
    by (simp add: env_successor_def env0_def)
  have h3: "?act = \<lparr>act_files = [], act_task = (if task ?s = '''' then ''use a queue'' else task ?s),
               act_msg = Some ''use a queue'', act_fs = fs (config ?s),
               act_messenger = messenger ?s\<rparr>"
    by (simp add: sw_refinement_more cfg0_def)
  have h4: "interact env_successor ?w1 1 ?act = (?w2, Inr ?resp)"
    by (simp add: env_successor_def env0_def emit_def set_approach_def alloc_def Let_def
        sw_refinement_more)
  have h5: "nextState ?resp = Some 2"
    by simp
  have h6: "?out = (fst ?out, fst (snd ?out), snd (snd ?out))"
    by simp
  have a: "st_approach (heap ?w2 1) = ''edited plan''"
    by (simp add: env_successor_def env0_def emit_def set_approach_def alloc_def Let_def
        sw_refinement_more)
  show ?thesis
    using send_installs_successor [OF h1 h2 h3 h4 h5 h6] a
    by (simp add: set_approach_def cancel_def emit_def)
qed

text \<open>
  C6. When the current state's \<^verbatim>\<open>interact\<close> answers without a successor, \<^verbatim>\<open>send\<close>
  keeps the current state, the session's approach and both retry counters, and leaves the
  world exactly as \<^verbatim>\<open>interact\<close> left it: no token source is cancelled.
\<close>

theorem send_without_successor_frame:
  assumes "u_state s = Some cur"
    and "collectFiles env (trace (emit (CollectFiles (workspaceRoot (config s))) w)) = Inr files"
    and "act = \<lparr>act_files = files, act_task = (if task s = '''' then msg else task s),
                act_msg = Some msg, act_fs = fs (config s), act_messenger = messenger s\<rparr>"
    and "interact env (emit (Interact cur act) (emit (CollectFiles (workspaceRoot (config s))) w))
           cur act = (w2, Inr resp)"
    and "nextState resp = None"
    and "send env s w msg = (s', w', r)"
  shows "r = Inr (interaction resp) \<and>
         w' = w2 \<and>
         s' = s\<lparr>task := (if task s = '''' then msg else task s)\<rparr> \<and>
         u_state s' = u_state s \<and>
         approach s' = approach s \<and>
         approachRetries s' = approachRetries s \<and>
         codeGenRetries s' = codeGenRetries s \<and>
         st_approach (heap w' cur) = st_approach (heap w2 cur) \<and>
         tokenSource_cancelled (heap w' cur) = tokenSource_cancelled (heap w2 cur) \<and>
         trace w' = trace w2"
  using assms
  by (auto simp: send_def nextInteraction_def state_def Let_def emit_def)


theorem send_without_successor_frame_witness:
  "snd (snd (send env0 (fst sw_refinement) (snd sw_refinement) ''use a queue'')) =
     Inr (Interaction ''ok'') \<and>
   u_state (fst (send env0 (fst sw_refinement) (snd sw_refinement) ''use a queue'')) = Some 1 \<and>
   approach (fst (send env0 (fst sw_refinement) (snd sw_refinement) ''use a queue'')) = '''' \<and>
   approachRetries (fst (send env0 (fst sw_refinement) (snd sw_refinement) ''use a queue'')) = 3 \<and>
   codeGenRetries (fst (send env0 (fst sw_refinement) (snd sw_refinement) ''use a queue'')) = 3 \<and>
   \<not> tokenSource_cancelled (heap (fst (snd (send env0 (fst sw_refinement) (snd sw_refinement)
     ''use a queue''))) 1)"
proof -
  let ?s = "fst sw_refinement" and ?w = "snd sw_refinement"
  let ?act = "\<lparr>act_files = [], act_task = ''use a queue'', act_msg = Some ''use a queue'',
               act_fs = 3, act_messenger = 4\<rparr>"
  let ?w1 = "emit (Interact 1 ?act) (emit (CollectFiles (workspaceRoot (config ?s))) ?w)"
  let ?resp = "\<lparr>nextState = None, interaction = Interaction ''ok''\<rparr>"
  let ?out = "send env0 ?s ?w ''use a queue''"
  have h1: "u_state ?s = Some 1"
    by (simp add: sw_refinement_simps)
  have h2: "collectFiles env0 (trace (emit (CollectFiles (workspaceRoot (config ?s))) ?w)) = Inr []"
    by (simp add: env0_def)
  have h3: "?act = \<lparr>act_files = [], act_task = (if task ?s = '''' then ''use a queue'' else task ?s),
               act_msg = Some ''use a queue'', act_fs = fs (config ?s),
               act_messenger = messenger ?s\<rparr>"
    by (simp add: sw_refinement_more cfg0_def)
  have h4: "interact env0 ?w1 1 ?act = (?w1, Inr ?resp)"
    by (simp add: env0_def)
  have h5: "nextState ?resp = None"
    by simp
  have h6: "?out = (fst ?out, fst (snd ?out), snd (snd ?out))"
    by simp
  have c: "\<not> tokenSource_cancelled (heap ?w1 1)"
    by (simp add: emit_def sw_refinement_more)
  show ?thesis
    using send_without_successor_frame [OF h1 h2 h3 h4 h5 h6] c
    by (simp add: sw_refinement_simps sw_refinement_more)
qed

section \<open>Setting the conversation up\<close>

text \<open>
  C2. A \<^verbatim>\<open>setupConversation\<close> that completes has called, in this order, the backend
  for a conversation, then (after the two local steps that find and zip the sources) for an
  upload URL, with the new conversation id and the checksum of the zip, and then the upload
  of the zip to that URL. The session then holds the conversation id and the upload id that
  the backend returned, and its current state is a new \<^verbatim>\<open>RefinementState\<close> whose
  configuration carries that conversation id.
\<close>

theorem setupConversation_call_order:
  assumes "setupConversation env s w = (s', w', Inr ())"
  shows "\<exists>cid root buf sum url uid.
    trace w' = trace w @
      [CreateConversation, GetSourceCodePath (workspaceRoot (config s)) ''src'',
       PrepareRepoData root, CreateUploadUrl cid sum, UploadCode url buf] \<and>
    createConversation env (trace w @ [CreateConversation]) = Inr cid \<and>
    getSourceCodePath env (trace w @
      [CreateConversation, GetSourceCodePath (workspaceRoot (config s)) ''src'']) = Inr root \<and>
    createUploadUrl env (trace w @
      [CreateConversation, GetSourceCodePath (workspaceRoot (config s)) ''src'',
       PrepareRepoData root, CreateUploadUrl cid sum]) = Inr (url, uid) \<and>
    prepareRepoData env (trace w @
      [CreateConversation, GetSourceCodePath (workspaceRoot (config s)) ''src'',
       PrepareRepoData root]) = Inr (buf, sum) \<and>
    uploadCode env (trace w') = None \<and>
    u_conversationId s' = Some cid \<and> conversationId s' = Inr cid \<and>
    u_uploadId s' = Some uid \<and> uploadId s' = Inr uid \<and>
    u_state s' = Some (next_addr w) \<and>
    cls (heap w' (next_addr w)) = RefinementState \<and>
    map_option ssc_conversationId (st_config (heap w' (next_addr w))) = Some cid"
  using assms
  by (auto simp: setupConversation_def Let_def emit_def alloc_def new_state_def
      getSessionStateConfig_def conversationId_def uploadId_def
      split: sum.splits option.splits prod.splits if_splits)


theorem setupConversation_call_order_witness:
  "snd (snd (setupConversation env0 (fst sw_new) (snd sw_new))) = Inr () \<and>
   trace (fst (snd (setupConversation env0 (fst sw_new) (snd sw_new)))) =
     [CreateConversation, GetSourceCodePath ''/ws'' ''src'', PrepareRepoData ''/ws/src'',
      CreateUploadUrl ''conv-1'' ''c0ffee'', UploadCode ''https://upload'' ''PK''] \<and>
   conversationId (fst (setupConversation env0 (fst sw_new) (snd sw_new))) = Inr ''conv-1'' \<and>
   uploadId (fst (setupConversation env0 (fst sw_new) (snd sw_new))) = Inr ''up-1'' \<and>
   u_state (fst (setupConversation env0 (fst sw_new) (snd sw_new))) = Some 1 \<and>
   cls (heap (fst (snd (setupConversation env0 (fst sw_new) (snd sw_new)))) 1) = RefinementState"
proof -
  let ?out = "setupConversation env0 (fst sw_new) (snd sw_new)"
  have r: "snd (snd ?out) = Inr ()"
    by (simp add: sw_new_def example_defs)
  have h: "?out = (fst ?out, fst (snd ?out), Inr ())"
    using r by (metis prod.collapse)
  have n: "next_addr (snd sw_new) = 1" "trace (snd sw_new) = []"
    "workspaceRoot (config (fst sw_new)) = ''/ws''"
    by (simp_all add: sw_new_def example_defs)
  show ?thesis
    using setupConversation_call_order [OF h] r n
    by (auto simp: env0_def)
qed

section \<open>Accepting the changes\<close>

lemma writeChanges_frame:
  "writeChanges env s ps w = (w', r) \<Longrightarrow>
     heap w' = heap w \<and> vfs w' = vfs w \<and> next_addr w' = next_addr w"
proof (induction ps arbitrary: w)
  case Nil
  then show ?case by simp
next
  case (Cons p ps)
  then show ?case
    by (fastforce simp: Let_def emit_def split: sum.splits option.splits)
qed

lemma writeChanges_only_listed:
  "writeChanges env s ps w = (w', r) \<Longrightarrow>
     \<exists>evs. trace w' = trace w @ evs \<and>
       (\<forall>e \<in> set evs. \<exists>p \<in> set ps.
          e = Mkdir (dirname env
                (if isAbsolute env p then p else join env (workspaceRoot (config s)) p)) \<or>
          (\<exists>c. e = WriteFile
                (if isAbsolute env p then p else join env (workspaceRoot (config s)) p) c))"
proof (induction ps arbitrary: w)
  case Nil
  then show ?case by simp
next
  case (Cons p ps)
  let ?t = "if isAbsolute env p then p else join env (workspaceRoot (config s)) p"
  show ?case
  proof (cases "Uri_from env (weaverbirdScheme env) p")
    case (Inl e)
    with Cons.prems show ?thesis by simp
  next
    case (Inr u)
    show ?thesis
    proof (cases "vfs w u")
      case (Inl e)
      with Cons.prems Inr show ?thesis by simp
    next
      case c: (Inr content)
      let ?w1 = "emit (Mkdir (dirname env ?t)) w"
      let ?w2 = "emit (WriteFile ?t (TextDecoder_decode env content)) ?w1"
      show ?thesis
      proof (cases "mkdir env (trace ?w1)")
        case (Some e)
        with Cons.prems Inr c have "w' = ?w1" by (simp add: Let_def)
        then show ?thesis by (auto simp: emit_def)
      next
        case m: None
        show ?thesis
        proof (cases "writeFile env (trace ?w2)")
          case (Some e)
          with Cons.prems Inr c m have "w' = ?w2" by (simp add: Let_def)
          then show ?thesis by (auto simp: emit_def)
        next
          case None
          with Cons.prems Inr c m have "writeChanges env s ps ?w2 = (w', r)"
            by (simp add: Let_def)
          from Cons.IH [OF this] obtain evs where
            evs: "trace w' = trace ?w2 @ evs"
              "\<forall>e \<in> set evs. \<exists>p \<in> set ps.
                 e = Mkdir (dirname env
                   (if isAbsolute env p then p else join env (workspaceRoot (config s)) p)) \<or>
                 (\<exists>c. e = WriteFile
                   (if isAbsolute env p then p else join env (workspaceRoot (config s)) p) c)"
            by blast
          have "trace w' = trace w @
                  (Mkdir (dirname env ?t) # WriteFile ?t (TextDecoder_decode env content) # evs)"
            using evs(1) by (simp add: emit_def)
          moreover have "\<forall>e \<in> set (Mkdir (dirname env ?t) #
                WriteFile ?t (TextDecoder_decode env content) # evs). \<exists>q \<in> set (p # ps).
              e = Mkdir (dirname env
                (if isAbsolute env q then q else join env (workspaceRoot (config s)) q)) \<or>
              (\<exists>c. e = WriteFile
                (if isAbsolute env q then q else join env (workspaceRoot (config s)) q) c)"
            using evs(2) by auto
          ultimately show ?thesis by blast
        qed
      qed
    qed
  qed
qed

lemma writeChanges_complete:
  "writeChanges env s ps w = (w', Inr ()) \<Longrightarrow>
     \<exists>chunks. trace w' = trace w @ concat chunks \<and>
       list_all2 (\<lambda>p evs. \<exists>u c.
           Uri_from env (weaverbirdScheme env) p = Inr u \<and> vfs w u = Inr c \<and>
           evs = [Mkdir (dirname env
                    (if isAbsolute env p then p else join env (workspaceRoot (config s)) p)),
                  WriteFile
                    (if isAbsolute env p then p else join env (workspaceRoot (config s)) p)
                    (TextDecoder_decode env c)]) ps chunks"
proof (induction ps arbitrary: w)
  case Nil
  then show ?case by simp
next
  case (Cons p ps)
  let ?t = "if isAbsolute env p then p else join env (workspaceRoot (config s)) p"
  from Cons.prems obtain u where u: "Uri_from env (weaverbirdScheme env) p = Inr u"
    by (cases "Uri_from env (weaverbirdScheme env) p") simp_all
  from Cons.prems u obtain c where c: "vfs w u = Inr c"
    by (cases "vfs w u") simp_all
  let ?w1 = "emit (Mkdir (dirname env ?t)) w"
  let ?w2 = "emit (WriteFile ?t (TextDecoder_decode env c)) ?w1"
  from Cons.prems u c have m: "mkdir env (trace ?w1) = None"
    by (cases "mkdir env (trace ?w1)") (simp_all add: Let_def)
  from Cons.prems u c m have wr: "writeFile env (trace ?w2) = None"
    by (cases "writeFile env (trace ?w2)") (simp_all add: Let_def)
  from Cons.prems u c m wr have rest: "writeChanges env s ps ?w2 = (w', Inr ())"
    by (simp add: Let_def)
  from Cons.IH [OF rest] obtain chunks where
    ch: "trace w' = trace ?w2 @ concat chunks"
      "list_all2 (\<lambda>p evs. \<exists>u c.
           Uri_from env (weaverbirdScheme env) p = Inr u \<and> vfs ?w2 u = Inr c \<and>
           evs = [Mkdir (dirname env
                    (if isAbsolute env p then p else join env (workspaceRoot (config s)) p)),
                  WriteFile
                    (if isAbsolute env p then p else join env (workspaceRoot (config s)) p)
                    (TextDecoder_decode env c)]) ps chunks"
    by blast
  have v: "vfs ?w2 = vfs w" by (simp add: emit_def)
  let ?chunk = "[Mkdir (dirname env ?t), WriteFile ?t (TextDecoder_decode env c)]"
  have "trace w' = trace w @ concat (?chunk # chunks)"
    using ch(1) by (simp add: emit_def)
  moreover have "list_all2 (\<lambda>p evs. \<exists>u c.
           Uri_from env (weaverbirdScheme env) p = Inr u \<and> vfs w u = Inr c \<and>
           evs = [Mkdir (dirname env
                    (if isAbsolute env p then p else join env (workspaceRoot (config s)) p)),
                  WriteFile
                    (if isAbsolute env p then p else join env (workspaceRoot (config s)) p)
                    (TextDecoder_decode env c)]) (p # ps) (?chunk # chunks)"
    using ch(2) u c unfolding v by simp
  ultimately show ?case by blast
qed


text \<open>
  C3. \<^verbatim>\<open>acceptChanges\<close> goes through the \<^verbatim>\<open>filePaths\<close> of the current state in order.
  When it completes, it has, for each path and for no other, read the content of the virtual
  file with the weaverbird scheme and that path, created the parent directory of the target
  and then written the decoded content to the target; the target is the path itself when it
  is absolute and the path joined to the workspace root otherwise. Whatever the outcome, it
  creates directories and writes files only for listed paths, and with no \<^verbatim>\<open>filePaths\<close>
  it does nothing.
\<close>

theorem acceptChanges_writes_filePaths:
  assumes "u_state s = Some a" and "acceptChanges env s w = (w', r)"
  shows
   "(r = Inr () \<longrightarrow>
      (\<exists>chunks. trace w' = trace w @ concat chunks \<and>
         list_all2 (\<lambda>p evs. \<exists>u c.
             Uri_from env (weaverbirdScheme env) p = Inr u \<and> vfs w u = Inr c \<and>
             evs = [Mkdir (dirname env
                      (if isAbsolute env p then p else join env (workspaceRoot (config s)) p)),
                    WriteFile
                      (if isAbsolute env p then p else join env (workspaceRoot (config s)) p)
                      (TextDecoder_decode env c)])
           (case filePaths (heap w a) of None \<Rightarrow> [] | Some ps \<Rightarrow> ps) chunks)) \<and>
    (\<exists>evs. trace w' = trace w @ evs \<and>
       (\<forall>e \<in> set evs. \<exists>p \<in> set (case filePaths (heap w a) of None \<Rightarrow> [] | Some ps \<Rightarrow> ps).
          e = Mkdir (dirname env
                (if isAbsolute env p then p else join env (workspaceRoot (config s)) p)) \<or>
          (\<exists>c. e = WriteFile
                (if isAbsolute env p then p else join env (workspaceRoot (config s)) p) c))) \<and>
    (filePaths (heap w a) = None \<longrightarrow> r = Inr () \<and> w' = w) \<and>
    heap w' = heap w \<and> vfs w' = vfs w"
proof -
  let ?ps = "case filePaths (heap w a) of None \<Rightarrow> [] | Some ps \<Rightarrow> ps"
  have wc: "writeChanges env s ?ps w = (w', r)"
    using assms by (simp add: acceptChanges_def state_def)
  have "r = Inr () \<Longrightarrow> writeChanges env s ?ps w = (w', Inr ())"
    using wc by simp
  note complete = writeChanges_complete [OF this]
  have none: "filePaths (heap w a) = None \<Longrightarrow> r = Inr () \<and> w' = w"
    using wc by simp
  show ?thesis
    using complete writeChanges_only_listed [OF wc] writeChanges_frame [OF wc] none
    by blast
qed

theorem acceptChanges_writes_filePaths_witness:
  "snd (acceptChanges env0 (fst sw_codegen) w_generated) = Inr () \<and>
   trace (fst (acceptChanges env0 (fst sw_codegen) w_generated)) =
     trace w_generated @
     [Mkdir ''/ws/src'', WriteFile ''/ws/src/a.ts'' ''let a = 1'',
      Mkdir ''/abs'', WriteFile ''/abs/b.ts'' ''let b = 2'']"
proof -
  let ?out = "acceptChanges env0 (fst sw_codegen) w_generated"
  have fp: "filePaths (heap w_generated 2) = Some [''src/a.ts'', ''/abs/b.ts'']"
    by (simp add: w_generated_def)
  have r: "snd ?out = Inr ()"
    by (simp add: acceptChanges_def state_def sw_codegen_simps fp Let_def env0_def emit_def
        w_generated_def)
  have h: "?out = (fst ?out, snd ?out)"
    by simp
  show ?thesis
    using acceptChanges_writes_filePaths [OF sw_codegen_simps(1) h] r fp
    by (auto simp: env0_def w_generated_def sw_codegen_more cfg0_def list_all2_Cons1
        posix_isAbsolute_def posix_dirname_def)
qed

section \<open>The order of the states\<close>

lemma step_ids_without_setup:
  "op \<noteq> SetupConversation \<Longrightarrow>
     u_conversationId (fst (step env (s, w) op)) = u_conversationId s"
  by (cases op)
    (auto split: prod.splits dest: send_fields initCodegen_fields decreaseRetries_fields)

lemma run_ids_without_setup:
  "SetupConversation \<notin> set ops \<Longrightarrow>
     u_conversationId (fst (run env (s, w) ops)) = u_conversationId s"
proof (induction ops arbitrary: s w)
  case Nil
  show ?case by (simp add: run_Nil)
next
  case (Cons op ops)
  obtain s' w' where st: "step env (s, w) op = (s', w')" by (cases "step env (s, w) op")
  have "u_conversationId s' = u_conversationId s"
    using step_ids_without_setup [of op env s w] st Cons.prems by auto
  moreover have "u_conversationId (fst (run env (s', w') ops)) = u_conversationId s'"
    using Cons.prems by (intro Cons.IH) simp
  ultimately show ?case
    by (simp add: run_Cons st)
qed

lemma initCodegen_without_id:
  "u_conversationId s = None \<Longrightarrow> initCodegen s w = (s, w, Inl ConversationIdNotFoundError)"
  by (simp add: initCodegen_def getSessionStateConfig_def conversationId_def)

lemma setupConversation_installs:
  "setupConversation env s w = (s', w', r) \<Longrightarrow>
     (r = Inr () \<longrightarrow> u_state s' = Some (next_addr w) \<and>
        cls (heap w' (next_addr w)) = RefinementState) \<and>
     (r \<noteq> Inr () \<longrightarrow> u_state s' = u_state s \<and> heap w' = heap w)"
  by (auto simp: setupConversation_def Let_def emit_def alloc_def new_state_def
      split: sum.splits option.splits prod.splits)

lemma initCodegen_installs:
  "initCodegen s w = (s', w', r) \<Longrightarrow>
     (r = Inr () \<longrightarrow> u_state s' = Some (next_addr w) \<and>
        cls (heap w' (next_addr w)) = CodeGenState \<and>
        (\<exists>c u. conversationId s = Inr c \<and> uploadId s = Inr u)) \<and>
     (r \<noteq> Inr () \<longrightarrow> s' = s \<and> w' = w)"
  by (auto simp: initCodegen_def getSessionStateConfig_def Let_def alloc_def new_state_def
      split: sum.splits option.splits prod.splits)

text \<open>
  C5, as amended. Every session starts in a \<^verbatim>\<open>ConversationNotStartedState\<close>. A
  \<^verbatim>\<open>setupConversation\<close> that completes installs a new \<^verbatim>\<open>RefinementState\<close> and an
  \<^verbatim>\<open>initCodegen\<close> that completes installs a new \<^verbatim>\<open>CodeGenState\<close>, whatever the state
  before; a \<^verbatim>\<open>setupConversation\<close> that throws keeps the current state and an
  \<^verbatim>\<open>initCodegen\<close> that throws changes nothing. \<^verbatim>\<open>initCodegen\<close> completes only when a
  conversation id and an upload id are stored and not empty: after any sequence of calls on a
  new session without \<^verbatim>\<open>setupConversation\<close> it throws
  \<^verbatim>\<open>ConversationIdNotFoundError\<close>.
\<close>

theorem state_transitions:
  "cls (heap (snd (Session env cfg m t w)) (next_addr w)) = ConversationNotStartedState \<and>
   u_state (fst (Session env cfg m t w)) = Some (next_addr w) \<and>
   (setupConversation env s1 w1 = (s1', w1', r1) \<longrightarrow>
      (r1 = Inr () \<longrightarrow> u_state s1' = Some (next_addr w1) \<and>
         cls (heap w1' (next_addr w1)) = RefinementState) \<and>
      (r1 \<noteq> Inr () \<longrightarrow> u_state s1' = u_state s1 \<and> heap w1' = heap w1)) \<and>
   (initCodegen s2 w2 = (s2', w2', r2) \<longrightarrow>
      (r2 = Inr () \<longrightarrow> u_state s2' = Some (next_addr w2) \<and>
         cls (heap w2' (next_addr w2)) = CodeGenState \<and>
         (\<exists>c u. conversationId s2 = Inr c \<and> uploadId s2 = Inr u)) \<and>
      (r2 \<noteq> Inr () \<longrightarrow> s2' = s2 \<and> w2' = w2)) \<and>
   (SetupConversation \<notin> set ops \<longrightarrow>
      initCodegen (fst (run env (Session env cfg m t w) ops))
          (snd (run env (Session env cfg m t w) ops)) =
        (fst (run env (Session env cfg m t w) ops),
         snd (run env (Session env cfg m t w) ops), Inl ConversationIdNotFoundError))"
proof -
  have "SetupConversation \<notin> set ops \<Longrightarrow>
      u_conversationId (fst (run env (Session env cfg m t w) ops)) = None"
    using run_ids_without_setup [of ops env "fst (Session env cfg m t w)"
        "snd (Session env cfg m t w)"]
    by (simp add: Session_fields)
  then have "SetupConversation \<notin> set ops \<Longrightarrow>
      initCodegen (fst (run env (Session env cfg m t w) ops))
          (snd (run env (Session env cfg m t w) ops)) =
        (fst (run env (Session env cfg m t w) ops),
         snd (run env (Session env cfg m t w) ops), Inl ConversationIdNotFoundError)"
    by (rule initCodegen_without_id)
  then show ?thesis
    using setupConversation_installs [of env s1 w1 s1' w1' r1]
      initCodegen_installs [of s2 w2 s2' w2' r2]
    by (simp add: Session_fields)
qed


theorem state_transitions_witness:
  "cls (heap (snd sw_new) 0) = ConversationNotStartedState \<and>
   cls (heap (fst (snd (setupConversation env0 (fst sw_new) (snd sw_new)))) 1) =
     RefinementState \<and>
   cls (heap (fst (snd (initCodegen (fst sw_refinement) (snd sw_refinement)))) 2) =
     CodeGenState \<and>
   u_state (fst (setupConversation env_upload_fails (fst sw_new) (snd sw_new))) = Some 0 \<and>
   initCodegen (fst (run env0 sw_new [Send ''hello''])) (snd (run env0 sw_new [Send ''hello''])) =
     (fst (run env0 sw_new [Send ''hello'']), snd (run env0 sw_new [Send ''hello'']),
      Inl ConversationIdNotFoundError)"
proof -
  let ?a = "setupConversation env0 (fst sw_new) (snd sw_new)"
  let ?b = "initCodegen (fst sw_refinement) (snd sw_refinement)"
  let ?c = "setupConversation env_upload_fails (fst sw_new) (snd sw_new)"
  have ha: "?a = (fst ?a, fst (snd ?a), Inr ())"
    using setup_examples(1) by (metis prod.collapse)
  have hb: "?b = (fst ?b, fst (snd ?b), Inr ())"
    using setup_examples(3) by (metis prod.collapse)
  have hc: "?c = (fst ?c, fst (snd ?c), Inl (Rejected ''upload failed''))"
    using setup_examples(2) by (metis prod.collapse)
  note t1 = state_transitions [where env = env0 and cfg = cfg0 and m = 4 and t = "''tab-1''"
      and w = w0 and ops = "[Send ''hello'']"
      and ?s1.0 = "fst sw_new" and ?w1.0 = "snd sw_new"
      and s1' = "fst ?a" and w1' = "fst (snd ?a)" and ?r1.0 = "Inr ()"
      and ?s2.0 = "fst sw_refinement" and ?w2.0 = "snd sw_refinement"
      and s2' = "fst ?b" and w2' = "fst (snd ?b)" and ?r2.0 = "Inr ()"]
  note t2 = state_transitions [where env = env_upload_fails and cfg = cfg0 and m = 4
      and t = "''tab-1''" and w = w0 and ops = "[]"
      and ?s1.0 = "fst sw_new" and ?w1.0 = "snd sw_new"
      and s1' = "fst ?c" and w1' = "fst (snd ?c)" and ?r1.0 = "Inl (Rejected ''upload failed'')"
      and ?s2.0 = "fst sw_refinement" and ?w2.0 = "snd sw_refinement"
      and s2' = "fst ?b" and w2' = "fst (snd ?b)" and ?r2.0 = "Inr ()"]
  have n: "Session env0 cfg0 4 ''tab-1'' w0 = sw_new"
    by (simp add: sw_new_def)
  from t1 ha hb have
    "cls (heap (fst (snd ?a)) (next_addr (snd sw_new))) = RefinementState"
    "cls (heap (fst (snd ?b)) (next_addr (snd sw_refinement))) = CodeGenState"
    "initCodegen (fst (run env0 sw_new [Send ''hello''])) (snd (run env0 sw_new [Send ''hello''])) =
       (fst (run env0 sw_new [Send ''hello'']), snd (run env0 sw_new [Send ''hello'']),
        Inl ConversationIdNotFoundError)"
    unfolding n by simp_all
  moreover from t2 hc have "u_state (fst ?c) = u_state (fst sw_new)"
    by simp
  ultimately show ?thesis
    by (simp add: sw_new_more sw_new_simps sw_refinement_more)
qed

text \<open>
  C5 as stated fails, since the session does not enforce the order. Setting the conversation
  up again after \<^verbatim>\<open>initCodegen\<close> goes back from \<^verbatim>\<open>CodeGenState\<close> to
  \<^verbatim>\<open>RefinementState\<close>; and when the upload is rejected, \<^verbatim>\<open>setupConversation\<close> has
  stored both ids and left the state not started, from where \<^verbatim>\<open>initCodegen\<close> reaches
  \<^verbatim>\<open>CodeGenState\<close> with no \<^verbatim>\<open>RefinementState\<close> in between.
\<close>

theorem state_order_counterexample:
  "u_state (fst sw_codegen) = Some 2 \<and> cls (heap (snd sw_codegen) 2) = CodeGenState \<and>
   u_state (fst sw_back) = Some 3 \<and> cls (heap (snd sw_back) 3) = RefinementState \<and>
   u_state (fst sw_new) = Some 0 \<and> cls (heap (snd sw_new) 0) = ConversationNotStartedState \<and>
   u_state (fst sw_upload_failed) = Some 0 \<and>
   cls (heap (snd sw_upload_failed) 0) = ConversationNotStartedState \<and>
   u_state (fst sw_codegen_direct) = Some 1 \<and>
   cls (heap (snd sw_codegen_direct) 1) = CodeGenState"
  by (simp add: sw_codegen_def sw_back_def sw_upload_failed_def sw_codegen_direct_def
      env_upload_fails_def sw_new_def example_defs)

end
